theory Spec2Isabelle
  imports Main
begin

section \<open>Syntax nodes on a heap\<close>

text \<open>
  A syntax node of \<^verbatim>\<open>caterwaul.js\<close> is a JavaScript object with the fields
  \<^verbatim>\<open>data\<close>, \<^verbatim>\<open>length\<close>, the numbered child slots \<^verbatim>\<open>this[0]\<close>, \<^verbatim>\<open>this[1]\<close>, ...
  and the links \<^verbatim>\<open>l\<close>, \<^verbatim>\<open>r\<close>, \<^verbatim>\<open>p\<close>. Nodes are compared by identity
  (\<^verbatim>\<open>r === this\<close>) and mutated in place, so they live on an explicit heap: a reference
  is the index of the object in the list of all objects allocated so far, and
  \<^verbatim>\<open>new syntax_node(d)\<close> appends an object. \<open>None\<close> stands for \<^verbatim>\<open>null\<close>,
  \<^verbatim>\<open>undefined\<close> and every other falsy value a slot or a link can hold.

  The fields \<^verbatim>\<open>length\<close>, \<^verbatim>\<open>l\<close>, \<^verbatim>\<open>r\<close>, \<^verbatim>\<open>p\<close> are called \<open>len\<close>,
  \<open>l_sib\<close>, \<open>r_sib\<close>, \<open>par\<close> here.
\<close>

type_synonym ref = nat

record node =
  data :: string
  slots :: "ref option list"
  len :: nat
  l_sib :: "ref option"
  r_sib :: "ref option"
  par :: "ref option"

type_synonym heap = "node list"

datatype error = TypeError | LexerStall

definition blank :: node where
  "blank = \<lparr>data = [], slots = [], len = 0, l_sib = None, r_sib = None, par = None\<rparr>"

text \<open>
  A reference of the program always names an allocated object; the lookup of any other
  number is made total by answering with an empty node, and an update there does nothing.
\<close>

definition node_at :: "heap \<Rightarrow> ref \<Rightarrow> node" where
  "node_at h a = (if a < length h then h ! a else blank)"

definition upd :: "ref \<Rightarrow> (node \<Rightarrow> node) \<Rightarrow> heap \<Rightarrow> heap" where
  "upd a f h = (if a < length h then h[a := f (h ! a)] else h)"

text \<open>\<^verbatim>\<open>new syntax_node(d)\<close> with no children.\<close>

definition alloc :: "string \<Rightarrow> heap \<Rightarrow> ref \<times> heap" where
  "alloc d h = (length h, h @ [blank\<lparr>data := d\<rparr>])"

text \<open>
  \<^verbatim>\<open>this[i]\<close>: a slot that was never written reads \<^verbatim>\<open>undefined\<close>. \<^verbatim>\<open>this[i] = x\<close>
  writes the slot and leaves \<^verbatim>\<open>length\<close> alone; the holes it may leave read
  \<^verbatim>\<open>undefined\<close>.
\<close>

definition slot :: "node \<Rightarrow> nat \<Rightarrow> ref option" where
  "slot n i = (if i < length (slots n) then slots n ! i else None)"

definition slot_set :: "ref option list \<Rightarrow> nat \<Rightarrow> ref option \<Rightarrow> ref option list" where
  "slot_set ks i x =
     (if i < length ks then ks[i := x] else ks @ replicate (i - length ks) None @ [x])"

subsection \<open>Tree primitives\<close>

text \<open>
  \<^verbatim>\<open>push: (this[@length++] = $0), this\<close> and
  \<^verbatim>\<open>append: (this[@length++] = $0) && ($0.p = this), this\<close>.
  Only \<open>append_child\<close> writes the parent link. \<^verbatim>\<open>pop: --@length, this\<close> leaves the
  slot in place; the parser calls it on a node that has just folded a sibling, so
  \<open>len\<close> is positive there.
\<close>

definition push :: "ref \<Rightarrow> ref option \<Rightarrow> heap \<Rightarrow> heap" where
  "push this x h = upd this (\<lambda>n. n\<lparr>slots := slot_set (slots n) (len n) x, len := len n + 1\<rparr>) h"

definition append_child :: "ref \<Rightarrow> ref option \<Rightarrow> heap \<Rightarrow> heap" where
  "append_child this x h =
     (let h1 = push this x h
      in case x of None \<Rightarrow> h1 | Some c \<Rightarrow> upd c (\<lambda>n. n\<lparr>par := Some this\<rparr>) h1)"

definition pop :: "ref \<Rightarrow> heap \<Rightarrow> heap" where
  "pop this h = upd this (\<lambda>n. n\<lparr>len := len n - 1\<rparr>) h"

subsection \<open>Ribbon primitives\<close>

text \<open>\<^verbatim>\<open>replace: ($0.l = @l) && (@l.r = $0), ($0.r = @r) && (@r.l = $0), this\<close>\<close>

definition replace :: "ref \<Rightarrow> ref \<Rightarrow> heap \<Rightarrow> heap" where
  "replace this x h =
     (let lft = l_sib (node_at h this);
          h1 = upd x (\<lambda>n. n\<lparr>l_sib := lft\<rparr>) h;
          h2 = (case lft of None \<Rightarrow> h1 | Some a \<Rightarrow> upd a (\<lambda>n. n\<lparr>r_sib := Some x\<rparr>) h1);
          rgt = r_sib (node_at h2 this);
          h3 = upd x (\<lambda>n. n\<lparr>r_sib := rgt\<rparr>) h2
      in case rgt of None \<Rightarrow> h3 | Some b \<Rightarrow> upd b (\<lambda>n. n\<lparr>l_sib := Some x\<rparr>) h3)"

text \<open>\<^verbatim>\<open>reparent: @p && @p[0] === this && (@p[0] = $0), this\<close>\<close>

definition reparent :: "ref \<Rightarrow> ref \<Rightarrow> heap \<Rightarrow> heap" where
  "reparent this x h =
     (case par (node_at h this) of
        None \<Rightarrow> h
      | Some q \<Rightarrow>
          if slot (node_at h q) 0 = Some this
          then upd q (\<lambda>n. n\<lparr>slots := slot_set (slots n) 0 (Some x)\<rparr>) h
          else h)"

text \<open>
  \<^verbatim>\<open>unlink: @l && (@l.r = @r), @r && (@r.l = @l), @l = @r = null, @reparent($0)\<close>;
  it returns \<^verbatim>\<open>this\<close>.
\<close>

definition unlink :: "ref \<Rightarrow> ref \<Rightarrow> heap \<Rightarrow> heap" where
  "unlink this x h =
     (let h1 = (case l_sib (node_at h this) of
                  None \<Rightarrow> h
                | Some a \<Rightarrow> upd a (\<lambda>n. n\<lparr>r_sib := r_sib (node_at h this)\<rparr>) h);
          h2 = (case r_sib (node_at h1 this) of
                  None \<Rightarrow> h1
                | Some b \<Rightarrow> upd b (\<lambda>n. n\<lparr>l_sib := l_sib (node_at h1 this)\<rparr>) h1);
          h3 = upd this (\<lambda>n. n\<lparr>l_sib := None, r_sib := None\<rparr>) h2
      in reparent this x h3)"

text \<open>
  \<^verbatim>\<open>fold_l: @append(@l && @l.unlink(this))\<close>,
  \<^verbatim>\<open>fold_r: @append(@r && @r.unlink(this))\<close>,
  \<^verbatim>\<open>fold_lr: @fold_l().fold_r()\<close>.
\<close>

definition fold_l :: "ref \<Rightarrow> heap \<Rightarrow> heap" where
  "fold_l this h =
     (case l_sib (node_at h this) of
        None \<Rightarrow> append_child this None h
      | Some a \<Rightarrow> append_child this (Some a) (unlink a this h))"

definition fold_r :: "ref \<Rightarrow> heap \<Rightarrow> heap" where
  "fold_r this h =
     (case r_sib (node_at h this) of
        None \<Rightarrow> append_child this None h
      | Some a \<Rightarrow> append_child this (Some a) (unlink a this h))"

definition fold_lr :: "ref \<Rightarrow> heap \<Rightarrow> heap" where
  "fold_lr this h = fold_r this (fold_l this h)"

text \<open>\<^verbatim>\<open>sibling: $0.p = @p, (@r = $0).l = this\<close>\<close>

definition sibling :: "ref \<Rightarrow> ref \<Rightarrow> heap \<Rightarrow> heap" where
  "sibling this x h =
     (let h1 = upd x (\<lambda>n. n\<lparr>par := par (node_at h this)\<rparr>) h;
          h2 = upd this (\<lambda>n. n\<lparr>r_sib := Some x\<rparr>) h1
      in upd x (\<lambda>n. n\<lparr>l_sib := Some this\<rparr>) h2)"

text \<open>
  \<^verbatim>\<open>append_to: $0 && $0.append(this), this\<close> and
  \<^verbatim>\<open>wrap: $0.p = @replace($0).p, @reparent($0), @l = @r = null, @append_to($0)\<close>;
  both return \<^verbatim>\<open>this\<close>.
\<close>

definition append_to :: "ref \<Rightarrow> ref option \<Rightarrow> heap \<Rightarrow> heap" where
  "append_to this x h = (case x of None \<Rightarrow> h | Some q \<Rightarrow> append_child q (Some this) h)"

definition wrap :: "ref \<Rightarrow> ref \<Rightarrow> heap \<Rightarrow> heap" where
  "wrap this x h =
     (let h1 = replace this x h;
          h2 = upd x (\<lambda>n. n\<lparr>par := par (node_at h1 this)\<rparr>) h1;
          h3 = reparent this x h2;
          h4 = upd this (\<lambda>n. n\<lparr>l_sib := None, r_sib := None\<rparr>) h3
      in append_to this (Some x) h4)"

section \<open>Token classification tables\<close>

text \<open>
  \<^verbatim>\<open>hash(s)\<close> splits \<^verbatim>\<open>s\<close> on whitespace into the keys of an object and
  \<^verbatim>\<open>annotate_keys\<close> records the length of its longest key in the property
  \<^verbatim>\<open>_max_length\<close>, which thereby is an own property too. A table is the list of its keys
  in insertion order.
  \<^verbatim>\<open>has = function (o, p) {return p && ! (p.length > o._max_length) && own.call(o, p)}\<close>
\<close>

definition max_length :: "string list \<Rightarrow> nat" where
  "max_length ks = fold max (map length ks) 0"

definition has :: "string list \<Rightarrow> string \<Rightarrow> bool" where
  "has ks p \<longleftrightarrow> p \<noteq> [] \<and> \<not> length p > max_length ks \<and> (p \<in> set ks \<or> p = ''_max_length'')"

definition lex_op :: "string list" where
  "lex_op =
     [''.'', ''new'', ''++'', ''--'', ''u++'', ''u--'', ''u+'', ''u-'', ''typeof'', ''u~'',
      ''u!'', ''!'', ''*'', ''/'', ''%'', ''+'', ''-'', ''<<'', ''>>'', ''>>>'', ''<'',
      ''>'', ''<='', ''>='', ''instanceof'', ''in'', ''=='', ''!='', ''==='', ''!=='',
      ''&'', ''^'', ''|'', ''&&'', ''||'', ''?'', ''='', ''+='', ''-='', ''*='', ''/='',
      ''%='', ''&='', ''|='', ''^='', ''<<='', ''>>='', ''>>>='', '':'', '','', ''return'',
      ''throw'', ''case'', ''var'', ''const'', ''break'', ''continue'', ''void'', ''else'',
      ''u;'', '';'']"

definition lex_postfix_unary :: "string list" where
  "lex_postfix_unary =
     [''++'', ''--'']"

definition parse_associates_right :: "string list" where
  "parse_associates_right =
     [''='', ''+='', ''-='', ''*='', ''/='', ''%='', ''&='', ''^='', ''|='', ''<<='',
      ''>>='', ''>>>='', ''~'', ''!'', ''new'', ''typeof'', ''u+'', ''u-'', ''--'', ''++'',
      ''u--'', ''u++'', ''?'', ''if'', ''else'', ''function'', ''try'', ''catch'',
      ''finally'', ''for'', ''switch'', ''case'', ''with'', ''while'', ''do'']"

definition parse_lr :: "string list" where
  "parse_lr =
     [''[]'', ''.'', ''()'', ''*'', ''/'', ''%'', ''+'', ''-'', ''<<'', ''>>'', ''>>>'',
      ''<'', ''>'', ''<='', ''>='', ''instanceof'', ''in'', ''=='', ''!='', ''==='',
      ''!=='', ''&'', ''^'', ''|'', ''&&'', ''||'', ''='', ''+='', ''-='', ''*='', ''/='',
      ''%='', ''&='', ''|='', ''^='', ''<<='', ''>>='', ''>>>='', '','', '':'', '';'']"

definition parse_invocation :: "string list" where
  "parse_invocation =
     [''[]'', ''()'']"

definition parse_r_optional :: "string list" where
  "parse_r_optional =
     [''return'', ''throw'', ''break'', ''continue'', ''else'']"

definition parse_l :: "string list" where
  "parse_l =
     [''++'', ''--'']"

definition parse_r :: "string list" where
  "parse_r =
     [''u+'', ''u-'', ''u!'', ''u~'', ''u++'', ''u--'', ''new'', ''typeof'', ''finally'',
      ''var'', ''const'', ''void'', ''delete'']"

definition parse_block :: "string list" where
  "parse_block =
     ['';'', ''{'']"

definition parse_invisible :: "string list" where
  "parse_invisible =
     [''i;'']"

definition parse_ambiguous_group :: "string list" where
  "parse_ambiguous_group =
     [''['', ''('']"

definition parse_ternary :: "string list" where
  "parse_ternary =
     [''?'']"

definition parse_not_a_value :: "string list" where
  "parse_not_a_value =
     [''function'', ''if'', ''for'', ''while'', ''catch'']"

definition parse_reduce_order :: "string list list" where
  "parse_reduce_order =
     [[''function''],
      [''('', ''['', ''.'', ''[]'', ''()''],
      [''new''],
      [''u++'', ''u--'', ''++'', ''--'', ''typeof'', ''u~'', ''u!'', ''u+'', ''u-''],
      [''*'', ''/'', ''%''],
      [''+'', ''-''],
      [''<<'', ''>>'', ''>>>''],
      [''<'', ''>'', ''<='', ''>='', ''instanceof'', ''in''],
      [''=='', ''!='', ''==='', ''!==''],
      [''&''],
      [''^''],
      [''|''],
      [''&&''],
      [''||''],
      [''case''],
      [''?''],
      [''='', ''+='', ''-='', ''*='', ''/='', ''%='', ''&='', ''|='', ''^='', ''<<='', ''>>='', ''>>>=''],
      ['':''],
      ['',''],
      [''return'', ''throw'', ''break'', ''continue'', ''delete'', ''void''],
      [''var'', ''const''],
      [''if'', ''else'', ''try'', ''catch'', ''finally'', ''for'', ''switch'', ''with'', ''while'', ''do''],
      ['';'']]"

text \<open>The tables that map a key to a value, as association lists.\<close>

definition parse_r_until_block :: "(string \<times> nat) list" where
  "parse_r_until_block =
     [(''function'', 2), (''if'', 1), (''do'', 1), (''catch'', 1), (''try'', 1), (''for'', 1),
      (''while'', 1), (''with'', 1)]"

definition parse_accepts :: "(string \<times> string) list" where
  "parse_accepts =
     [(''if'', ''else''), (''do'', ''while''), (''catch'', ''finally''), (''try'', ''catch'')]"

definition parse_group :: "(string \<times> string) list" where
  "parse_group = [(''('', '')''), (''['', '']''), (''{'', ''}''), (''?'', '':'')]"

text \<open>
  \<^verbatim>\<open>parse_inverse_order\<close> maps a key to the index of the last precedence group that has
  it; \<^verbatim>\<open>parse_index_forward[i]\<close> is computed by a loop over the keys of group \<^verbatim>\<open>i\<close>
  that stops at the first key for which the flag stays true:
  \<^verbatim>\<open>for (var k in _) if (has(_, k) && (xs[i] = xs[i] && ! has(parse_associates_right, k))) break\<close>
\<close>

definition parse_inverse_order :: "(string \<times> nat) list" where
  "parse_inverse_order =
     rev (concat (map (\<lambda>(i, ks). map (\<lambda>k. (k, i)) (filter (has ks) ks))
                    (zip [0 ..< length parse_reduce_order] parse_reduce_order)))"

fun forward_scan :: "string list \<Rightarrow> bool \<Rightarrow> string list \<Rightarrow> bool" where
  "forward_scan g x [] = x"
| "forward_scan g x (k # ks) =
     (if has g k
      then (if x \<and> \<not> has parse_associates_right k then True
            else forward_scan g False ks)
      else forward_scan g x ks)"

definition parse_index_forward :: "nat \<Rightarrow> bool" where
  "parse_index_forward i = forward_scan (parse_reduce_order ! i) True (parse_reduce_order ! i)"

section \<open>Traversal\<close>

text \<open>
  A mapping function is host code: it may keep state of its own (the counter of
  \<^verbatim>\<open>s\<close>, whatever an expander closes over), allocate and mutate nodes, raise, or not
  return. An action therefore runs on a pair of the caller's state \<open>'w\<close> and the heap,
  and answers \<open>None\<close> when it does not return, or a raised error or a value together
  with the state it leaves behind. A returned node is \<open>Some\<close> reference; every falsy
  result is \<open>None\<close>.
\<close>

type_synonym ('w, 'a) action = "'w \<times> heap \<Rightarrow> ((error + 'a) \<times> 'w \<times> heap) option"

text \<open>
  \<^verbatim>\<open>map: function (f) {for (var n = new syntax_node(this.data), i = 0, l = this.length;
                         i < l; ++i) n.push(f(this[i], i) || this[i]); return n}\<close>
\<close>

fun map_loop ::
  "(ref option \<Rightarrow> nat \<Rightarrow> ('w, ref option) action) \<Rightarrow> ref \<Rightarrow> ref \<Rightarrow> nat list \<Rightarrow> ('w, unit) action"
where
  "map_loop f this n [] \<sigma> = Some (Inr (), \<sigma>)"
| "map_loop f this n (i # js) \<sigma> =
     (case f (slot (node_at (snd \<sigma>) this) i) i \<sigma> of
        None \<Rightarrow> None
      | Some (Inl e, \<sigma>') \<Rightarrow> Some (Inl e, \<sigma>')
      | Some (Inr v, (w', h')) \<Rightarrow>
          map_loop f this n js
            (w', push n (case v of None \<Rightarrow> slot (node_at h' this) i | Some q \<Rightarrow> Some q) h'))"

definition map_node ::
  "(ref option \<Rightarrow> nat \<Rightarrow> ('w, ref option) action) \<Rightarrow> ref \<Rightarrow> ('w, ref) action"
where
  "map_node f this \<sigma> =
     (case alloc (data (node_at (snd \<sigma>) this)) (snd \<sigma>) of
        (n, h1) \<Rightarrow>
          (case map_loop f this n [0 ..< len (node_at h1 this)] (fst \<sigma>, h1) of
             None \<Rightarrow> None
           | Some (Inl e, \<sigma>') \<Rightarrow> Some (Inl e, \<sigma>')
           | Some (Inr u, \<sigma>') \<Rightarrow> Some (Inr n, \<sigma>')))"

text \<open>
  \<^verbatim>\<open>rmap: function (f) {var r = f(this);
     return ! r || r === this ? this.map(function (n) {return n && n.rmap(f)}) : r}\<close>
  The recursion follows the heap, which need not be a tree, so it carries fuel; running
  out of fuel is not returning.
\<close>

definition lift_ref :: "('w, ref) action \<Rightarrow> ('w, ref option) action" where
  "lift_ref m \<sigma> =
     (case m \<sigma> of
        None \<Rightarrow> None
      | Some (Inl e, \<sigma>') \<Rightarrow> Some (Inl e, \<sigma>')
      | Some (Inr a, \<sigma>') \<Rightarrow> Some (Inr (Some a), \<sigma>'))"

fun rmap :: "nat \<Rightarrow> (ref \<Rightarrow> ('w, ref option) action) \<Rightarrow> ref \<Rightarrow> ('w, ref) action" where
  "rmap 0 f this \<sigma> = None"
| "rmap (Suc k) f this \<sigma> =
     (case f this \<sigma> of
        None \<Rightarrow> None
      | Some (Inl e, \<sigma>') \<Rightarrow> Some (Inl e, \<sigma>')
      | Some (Inr r, \<sigma>') \<Rightarrow>
          if r = None \<or> r = Some this
          then map_node
                 (\<lambda>c i. case c of
                           None \<Rightarrow> (\<lambda>\<tau>. Some (Inr None, \<tau>))
                         | Some n \<Rightarrow> lift_ref (rmap k f n))
                 this \<sigma>'
          else Some (Inr (the r), \<sigma>'))"




section \<open>Pattern matching and macroexpansion\<close>

text \<open>
  \<^verbatim>\<open>macro_try_match = function (pattern, t) {
     if (pattern.data === '_')                                   return [t];
     if (pattern.data !== t.data || pattern.length !== t.length) return null;
     for (var i = 0, l = pattern.length, wildcards = [], match = null; i < l; ++i)
       if (match = macro_try_match(pattern[i], t[i])) wildcards = wildcards.concat(match);
       else                                           return null;
     return wildcards}\<close>
  A slot may hold \<^verbatim>\<open>null\<close>, and reading \<^verbatim>\<open>.data\<close> of it raises a TypeError. An
  array, also the empty one, is truthy.
\<close>

fun match_children ::
  "(ref option \<Rightarrow> ref option \<Rightarrow> (error + ref option list option) option) \<Rightarrow>
   node \<Rightarrow> node \<Rightarrow> nat list \<Rightarrow> ref option list \<Rightarrow> (error + ref option list option) option"
where
  "match_children rec pn tn [] wildcards = Some (Inr (Some wildcards))"
| "match_children rec pn tn (i # js) wildcards =
     (case rec (slot pn i) (slot tn i) of
        None \<Rightarrow> None
      | Some (Inl e) \<Rightarrow> Some (Inl e)
      | Some (Inr None) \<Rightarrow> Some (Inr None)
      | Some (Inr (Some m)) \<Rightarrow> match_children rec pn tn js (wildcards @ m))"

fun macro_try_match ::
  "nat \<Rightarrow> heap \<Rightarrow> ref option \<Rightarrow> ref option \<Rightarrow> (error + ref option list option) option"
where
  "macro_try_match 0 h pattern t = None"
| "macro_try_match (Suc k) h None t = Some (Inl TypeError)"
| "macro_try_match (Suc k) h (Some pa) t =
     (if data (node_at h pa) = ''_'' then Some (Inr (Some [t]))
      else case t of
        None \<Rightarrow> Some (Inl TypeError)
      | Some ta \<Rightarrow>
          if data (node_at h pa) \<noteq> data (node_at h ta) \<or> len (node_at h pa) \<noteq> len (node_at h ta)
          then Some (Inr None)
          else match_children (macro_try_match k h) (node_at h pa) (node_at h ta)
                 [0 ..< len (node_at h pa)] [])"

text \<open>
  \<^verbatim>\<open>macro_expand = function (t, macros, expanders, context) {
     return t.rmap (function (n) {
       for (var i = 0, l = macros.length, macro = null, match = null, replacement = null;
            i < l && (macro = macros[i]); ++i)
         if ((match = macro_try_match(macro, n)) &&
             (replacement = expanders[i].apply(context, match))) return replacement})}\<close>
  An expander is host code applied to the context and the captures. The loop ends at a
  falsy pattern; calling a missing expander raises a TypeError.
\<close>

type_synonym ('c, 'w) expander = "'c \<Rightarrow> ref option list \<Rightarrow> ('w, ref option) action"

fun expand_loop ::
  "nat \<Rightarrow> ref option list \<Rightarrow> ('c, 'w) expander list \<Rightarrow> 'c \<Rightarrow> nat list \<Rightarrow> ref \<Rightarrow>
   ('w, ref option) action"
where
  "expand_loop fuel macros expanders context [] n \<sigma> = Some (Inr None, \<sigma>)"
| "expand_loop fuel macros expanders context (i # js) n \<sigma> =
     (case macros ! i of
        None \<Rightarrow> Some (Inr None, \<sigma>)
      | Some macro \<Rightarrow>
          (case macro_try_match fuel (snd \<sigma>) (Some macro) (Some n) of
             None \<Rightarrow> None
           | Some (Inl e) \<Rightarrow> Some (Inl e, \<sigma>)
           | Some (Inr None) \<Rightarrow> expand_loop fuel macros expanders context js n \<sigma>
           | Some (Inr (Some match)) \<Rightarrow>
               if i < length expanders
               then (case (expanders ! i) context match \<sigma> of
                       None \<Rightarrow> None
                     | Some (Inl e, \<sigma>') \<Rightarrow> Some (Inl e, \<sigma>')
                     | Some (Inr None, \<sigma>') \<Rightarrow> expand_loop fuel macros expanders context js n \<sigma>'
                     | Some (Inr (Some replacement), \<sigma>') \<Rightarrow> Some (Inr (Some replacement), \<sigma>'))
               else Some (Inl TypeError, \<sigma>)))"

definition expand_visit ::
  "nat \<Rightarrow> ref option list \<Rightarrow> ('c, 'w) expander list \<Rightarrow> 'c \<Rightarrow> ref \<Rightarrow> ('w, ref option) action"
where
  "expand_visit fuel macros expanders context =
     expand_loop fuel macros expanders context [0 ..< length macros]"

definition macro_expand ::
  "nat \<Rightarrow> ref \<Rightarrow> ref option list \<Rightarrow> ('c, 'w) expander list \<Rightarrow> 'c \<Rightarrow> ('w, ref) action"
where
  "macro_expand fuel t macros expanders context =
     rmap fuel (expand_visit fuel macros expanders context) t"

section \<open>Trees in the heap\<close>

text \<open>
  The specification speaks of trees: a node with its data and an ordered sequence of child
  nodes. \<open>repr h t\<close> says that the heap holds the tree \<open>t\<close> at the addresses that \<open>t\<close>
  names: every node has the data and the number of children of \<open>t\<close>, and each child slot
  holds a node (not \<^verbatim>\<open>null\<close>) that is the root of the child tree. Subtrees may be shared.
\<close>

datatype tree = T (addr: ref) (label: string) (children: "tree list")




section \<open>Properties of the matcher\<close>








section \<open>Properties of macroexpansion\<close>

text \<open>
  The function that \<^verbatim>\<open>rmap\<close> hands to \<^verbatim>\<open>map\<close>:
  \<^verbatim>\<open>function (n) {return n && n.rmap(f)}\<close>, with the fuel left for the children.
\<close>

definition descend :: "nat \<Rightarrow> (ref \<Rightarrow> ('w, ref option) action) \<Rightarrow> ref option \<Rightarrow> nat \<Rightarrow> ('w, ref option) action" where
  "descend k f c i = (case c of None \<Rightarrow> (\<lambda>\<tau>. Some (Inr None, \<tau>)) | Some n \<Rightarrow> lift_ref (rmap k f n))"

text \<open>
  The registry as the specification has it, a sequence of (pattern, expander) pairs tried
  in order: \<open>first_expansion\<close> is the first pair whose pattern matches and whose
  expander returns a node; \<open>skipped\<close> says that every pair of a list was tried and
  yielded nothing, its pattern failing to match or its expander returning a falsy value,
  and relates the state before to the state that the expanders called on the way leave.
\<close>

fun first_expansion ::
  "nat \<Rightarrow> (ref \<times> ('c, 'w) expander) list \<Rightarrow> 'c \<Rightarrow> ref \<Rightarrow> ('w, ref option) action"
where
  "first_expansion fuel [] context n \<sigma> = Some (Inr None, \<sigma>)"
| "first_expansion fuel ((macro, expander) # rest) context n \<sigma> =
     (case macro_try_match fuel (snd \<sigma>) (Some macro) (Some n) of
        None \<Rightarrow> None
      | Some (Inl e) \<Rightarrow> Some (Inl e, \<sigma>)
      | Some (Inr None) \<Rightarrow> first_expansion fuel rest context n \<sigma>
      | Some (Inr (Some match)) \<Rightarrow>
          (case expander context match \<sigma> of
             None \<Rightarrow> None
           | Some (Inl e, \<sigma>') \<Rightarrow> Some (Inl e, \<sigma>')
           | Some (Inr None, \<sigma>') \<Rightarrow> first_expansion fuel rest context n \<sigma>'
           | Some (Inr (Some replacement), \<sigma>') \<Rightarrow> Some (Inr (Some replacement), \<sigma>')))"

fun skipped ::
  "nat \<Rightarrow> 'c \<Rightarrow> ref \<Rightarrow> (ref \<times> ('c, 'w) expander) list \<Rightarrow> 'w \<times> heap \<Rightarrow> 'w \<times> heap \<Rightarrow> bool"
where
  "skipped fuel context n [] \<sigma> \<sigma>' = (\<sigma>' = \<sigma>)"
| "skipped fuel context n ((macro, expander) # rest) \<sigma> \<sigma>' =
     (case macro_try_match fuel (snd \<sigma>) (Some macro) (Some n) of
        Some (Inr None) \<Rightarrow> skipped fuel context n rest \<sigma> \<sigma>'
      | Some (Inr (Some match)) \<Rightarrow>
          (case expander context match \<sigma> of
             Some (Inr None, \<sigma>1) \<Rightarrow> skipped fuel context n rest \<sigma>1 \<sigma>'
           | _ \<Rightarrow> False)
      | _ \<Rightarrow> False)"

lemma expand_loop_first:
  "i \<le> length reg \<Longrightarrow>
   expand_loop fuel (map (Some \<circ> fst) reg) (map snd reg) context [i ..< length reg] n \<sigma> =
   first_expansion fuel (drop i reg) context n \<sigma>"
proof (induction "length reg - i" arbitrary: i \<sigma>)
  case 0
  then show ?case by simp
next
  case (Suc k)
  then have i: "i < length reg" by simp
  obtain macro expander where ri: "reg ! i = (macro, expander)" by (cases "reg ! i")
  have d: "drop i reg = (macro, expander) # drop (Suc i) reg"
    using i ri by (simp add: Cons_nth_drop_Suc[symmetric])
  have u: "[i ..< length reg] = i # [Suc i ..< length reg]" using i by (simp add: upt_conv_Cons)
  have IH: "\<And>\<tau>. expand_loop fuel (map (Some \<circ> fst) reg) (map snd reg) context [Suc i ..< length reg] n \<tau> =
      first_expansion fuel (drop (Suc i) reg) context n \<tau>"
    using Suc.hyps(1)[of "Suc i"] Suc.hyps(2) i by simp
  show ?case
    unfolding d u using i ri
    by (simp add: IH split: option.splits sum.splits prod.splits)
qed

lemma expand_visit_first:
  "expand_visit fuel (map (Some \<circ> fst) reg) (map snd reg) context n \<sigma> =
   first_expansion fuel reg context n \<sigma>"
  using expand_loop_first[of 0 reg] by (simp add: expand_visit_def)

lemma skipped_first:
  "skipped fuel context n pre \<sigma> \<sigma>1 \<Longrightarrow>
   first_expansion fuel (pre @ rest) context n \<sigma> = first_expansion fuel rest context n \<sigma>1"
proof (induction pre arbitrary: \<sigma>)
  case Nil
  then show ?case by simp
next
  case (Cons pe pre)
  obtain macro expander where pe: "pe = (macro, expander)" by (cases pe)
  let ?m = "macro_try_match fuel (snd \<sigma>) (Some macro) (Some n)"
  from Cons.prems pe have ok: "?m = Some (Inr None) \<or> (\<exists>c. ?m = Some (Inr (Some c)))"
    by (simp split: option.splits sum.splits)
  then show ?case
  proof
    assume m: "?m = Some (Inr None)"
    with Cons.prems pe have "skipped fuel context n pre \<sigma> \<sigma>1" by simp
    from Cons.IH[OF this] m pe show ?thesis by simp
  next
    assume "\<exists>c. ?m = Some (Inr (Some c))"
    then obtain c where m: "?m = Some (Inr (Some c))" ..
    from Cons.prems pe m have sk': "(case expander context c \<sigma> of
          Some (Inr None, \<tau>) \<Rightarrow> skipped fuel context n pre \<tau> \<sigma>1 | _ \<Rightarrow> False)"
      by simp
    have "\<exists>\<tau>. expander context c \<sigma> = Some (Inr None, \<tau>) \<and> skipped fuel context n pre \<tau> \<sigma>1"
    proof (cases "expander context c \<sigma>")
      case None
      with sk' show ?thesis by simp
    next
      case (Some res)
      obtain x \<tau> where res: "res = (x, \<tau>)" by (cases res)
      show ?thesis
      proof (cases x)
        case (Inl e)
        with sk' Some res show ?thesis by simp
      next
        case (Inr v)
        with sk' Some res show ?thesis by (cases v) simp_all
      qed
    qed
    then obtain \<tau> where
      e: "expander context c \<sigma> = Some (Inr None, \<tau>)" and sk: "skipped fuel context n pre \<tau> \<sigma>1"
      by blast
    from Cons.IH[OF sk] m e pe show ?thesis by simp
  qed
qed



text \<open>
  A heap with \<^verbatim>\<open>+\<close> over \<^verbatim>\<open>x\<close> (nodes 0 and 1), a replacement \<^verbatim>\<open>y\<close> (node 2) and the
  patterns \<^verbatim>\<open>x\<close> and \<^verbatim>\<open>_\<close> (nodes 3 and 4); two expanders that count their calls, one
  returning the replacement and one returning nothing.
\<close>

definition expand_heap :: heap where
  "expand_heap =
     [blank\<lparr>data := ''+'', slots := [Some 1], len := 1\<rparr>,
      blank\<lparr>data := ''x''\<rparr>, blank\<lparr>data := ''y''\<rparr>, blank\<lparr>data := ''x''\<rparr>, blank\<lparr>data := ''_''\<rparr>]"

definition to_y :: "(unit, nat) expander" where
  "to_y cx match \<sigma> = Some (Inr (Some 2), (Suc (fst \<sigma>), snd \<sigma>))"

definition decline :: "(unit, nat) expander" where
  "decline cx match \<sigma> = Some (Inr None, (Suc (fst \<sigma>), snd \<sigma>))"



text \<open>
  Claim C3. At a node the pairs of the registry are tried in registration order. If the
  pairs before some pair were all tried without result (no match, or an expander that
  returned a falsy value, which is no error) and that pair matches and its expander
  returns a node, this node is the replacement, whatever pairs follow. If no pair of the
  registry yields a node, nothing is returned and macroexpansion copies the node and
  visits its children.
\<close>

theorem macro_expand_first_match:
  assumes "skipped fuel cx n pre \<sigma> \<tau>"
  shows
    "(macro_try_match fuel (snd \<tau>) (Some macro) (Some n) = Some (Inr (Some match)) \<and>
      expander cx match \<tau> = Some (Inr (Some r), \<upsilon>) \<longrightarrow>
      expand_visit fuel (map (Some \<circ> fst) (pre @ (macro, expander) # post))
        (map snd (pre @ (macro, expander) # post)) cx n \<sigma> = Some (Inr (Some r), \<upsilon>)) \<and>
     expand_visit fuel (map (Some \<circ> fst) pre) (map snd pre) cx n \<sigma> = Some (Inr None, \<tau>) \<and>
     (fuel = Suc k \<longrightarrow>
      macro_expand fuel n (map (Some \<circ> fst) pre) (map snd pre) cx \<sigma> =
      map_node (descend k (expand_visit fuel (map (Some \<circ> fst) pre) (map snd pre) cx)) n \<tau>)"
proof (intro conjI impI)
  assume "macro_try_match fuel (snd \<tau>) (Some macro) (Some n) = Some (Inr (Some match)) \<and>
      expander cx match \<tau> = Some (Inr (Some r), \<upsilon>)"
  then show "expand_visit fuel (map (Some \<circ> fst) (pre @ (macro, expander) # post))
        (map snd (pre @ (macro, expander) # post)) cx n \<sigma> = Some (Inr (Some r), \<upsilon>)"
    unfolding expand_visit_first skipped_first[OF assms] by simp
next
  show none: "expand_visit fuel (map (Some \<circ> fst) pre) (map snd pre) cx n \<sigma> = Some (Inr None, \<tau>)"
    using skipped_first[OF assms, of "[]"] by (simp add: expand_visit_first)
  assume "fuel = Suc k"
  with none show "macro_expand fuel n (map (Some \<circ> fst) pre) (map snd pre) cx \<sigma> =
      map_node (descend k (expand_visit fuel (map (Some \<circ> fst) pre) (map snd pre) cx)) n \<tau>"
    by (simp add: macro_expand_def descend_def[abs_def])
qed

lemma expand_heap_skipped:
  "skipped 2 () 1 [(3, decline)] (0, expand_heap) (1, expand_heap)"
  by (simp add: eval_nat_numeral expand_heap_def node_at_def blank_def decline_def)

lemma expand_heap_match:
  "macro_try_match 2 expand_heap (Some 4) (Some 1) = Some (Inr (Some [Some 1]))"
  by (simp add: eval_nat_numeral expand_heap_def node_at_def blank_def)

theorem macro_expand_first_match_witness:
  "skipped 2 () 1 [(3, decline)] (0, expand_heap) (1, expand_heap) \<and>
   expand_visit 2 [Some 3, Some 4, Some 3] [decline, to_y, decline] () 1 (0, expand_heap) =
     Some (Inr (Some 2), (2, expand_heap))"
  using macro_expand_first_match[OF expand_heap_skipped, where macro = 4 and match = "[Some 1]"
      and expander = to_y and r = 2 and \<upsilon> = "(2, expand_heap)" and post = "[(3, decline)]"]
    expand_heap_skipped expand_heap_match
  by (simp add: to_y_def)


section \<open>Substitution\<close>

text \<open>
  The result of a substitution is described by an output tree: a replacement node, taken
  as it is, or a fresh copy of a node with its children's results.

  \<open>subst_spec key pick step t i\<close> is the substitution as the documentation of
  \<^verbatim>\<open>s\<close> words it: the nodes whose data is \<open>key\<close> are met in preorder, left to right,
  and the traversal does not enter a node it replaces; a counter numbers them, the node
  met at counter \<open>i\<close> becomes \<open>pick i\<close> and the counter becomes \<open>step i\<close>. With an
  array \<open>ys\<close> of replacements \<open>pick\<close> is \<open>cycle ys\<close> and \<open>step\<close> is \<open>Suc\<close>; with a
  single node \<open>pick\<close> is constant.
\<close>

datatype otree = Rep ref | Cpy string "otree list"






definition extends :: "heap \<Rightarrow> heap \<Rightarrow> bool" where
  "extends h h' \<longleftrightarrow> take (length h) h' = h"


lemma length_upd [simp]: "length (upd a f h) = length h"
  by (simp add: upd_def)


lemma length_push [simp]: "length (push n x h) = length h"
  by (simp add: push_def)




lemma extends_refl [simp]: "extends h h"
  by (simp add: extends_def)



lemma extends_alloc: "extends h (snd (alloc d h))"
  by (simp add: extends_def alloc_def)









text \<open>
  The substitution as the specification words it, replacing leaves only: a node whose
  data is \<open>key\<close> but which has children is copied and entered.
\<close>

fun subst_leaves :: "string \<Rightarrow> (nat \<Rightarrow> ref) \<Rightarrow> (nat \<Rightarrow> nat) \<Rightarrow> tree \<Rightarrow> nat \<Rightarrow> otree \<times> nat"
  and subst_leaves_list :: "string \<Rightarrow> (nat \<Rightarrow> ref) \<Rightarrow> (nat \<Rightarrow> nat) \<Rightarrow> tree list \<Rightarrow> nat \<Rightarrow> otree list \<times> nat"
where
  "subst_leaves key pick step (T a d cs) i =
     (if d = key \<and> cs = [] then (Rep (pick i), step i)
      else case subst_leaves_list key pick step cs i of (os, i') \<Rightarrow> (Cpy d os, i'))"
| "subst_leaves_list key pick step [] i = ([], i)"
| "subst_leaves_list key pick step (c # cs) i =
     (case subst_leaves key pick step c i of (out, i1) \<Rightarrow>
        case subst_leaves_list key pick step cs i1 of (os, i2) \<Rightarrow> (out # os, i2))"












section \<open>Parent links under map and rmap\<close>











section \<open>Flattening\<close>






lemma fold_push_length [simp]: "length (fold (\<lambda>x. push n (Some x)) xs h) = length h"
  by (induction xs arbitrary: h) auto
















section \<open>The lexer\<close>

text \<open>
  The source text is a string of characters; \<^verbatim>\<open>cs(i)\<close>, that is
  \<^verbatim>\<open>s.charCodeAt(i)\<close>, is \<^verbatim>\<open>NaN\<close> outside the string, here \<open>None\<close>, and no table
  has an entry for it. \<^verbatim>\<open>s.charAt(i)\<close> is the empty string there and
  \<^verbatim>\<open>s.substring(a, b)\<close> clips at the end. A character table
  \<^verbatim>\<open>lex_table(s)\<close> is true exactly at the characters of \<^verbatim>\<open>s\<close>.
\<close>

unbundle bit_operations_syntax

definition code_at :: "string \<Rightarrow> nat \<Rightarrow> char option" where
  "code_at s i = (if i < length s then Some (s ! i) else None)"

definition char_at :: "string \<Rightarrow> nat \<Rightarrow> string" where
  "char_at s i = (if i < length s then [s ! i] else [])"

definition substring :: "string \<Rightarrow> nat \<Rightarrow> nat \<Rightarrow> string" where
  "substring s a b = (if a \<le> b then take (b - a) (drop a s) else take (a - b) (drop b s))"

definition lex_table :: "string \<Rightarrow> char option \<Rightarrow> bool" where
  "lex_table s c = (case c of None \<Rightarrow> False | Some x \<Rightarrow> x \<in> set s)"

definition lex_float :: string where "lex_float = ''.0123456789''"
definition lex_decimal :: string where "lex_decimal = ''0123456789''"
definition lex_integer :: string where "lex_integer = ''0123456789abcdefABCDEFx''"
definition lex_exp :: string where "lex_exp = ''eE''"
definition lex_space :: string where "lex_space = [CHR '' '', CHR 0x0A, CHR 0x0D, CHR 0x09]"
definition lex_bracket :: string where "lex_bracket = ''()[]{}''"
definition lex_opener :: string where "lex_opener = ''([{''"
definition lex_punct :: string where "lex_punct = ''+-*/%&|^!~=<>?:;.,''"
definition lex_eol :: string where "lex_eol = [CHR 0x0A, CHR 0x0D]"
definition lex_regexp_suffix :: string where "lex_regexp_suffix = ''gims''"
definition lex_quote :: string where "lex_quote = [CHR 0x27, CHR 0x22, CHR ''/'']"
definition lex_slash :: char where "lex_slash = CHR ''/''"
definition lex_star :: char where "lex_star = CHR ''*''"
definition lex_back :: char where "lex_back = CHR 0x5C"
definition lex_dot :: char where "lex_dot = CHR ''.''"
definition lex_zero :: char where "lex_zero = CHR ''0''"
definition lex_ident :: string where
  "lex_ident = ''$_abcdefghijklmnopqrstuvwxyzABCDEFGHIJKLMNOPQRSTUVWXYZ0123456789''"

subsection \<open>The inner loops\<close>

text \<open>
  \<open>scan_while P s i\<close> is the position at which \<^verbatim>\<open>while (i < l && P(cs(i))) ++i\<close>
  stops; the loops of the form \<^verbatim>\<open>while (++i < l && P(cs(i)))\<close> start it one further.
\<close>

function scan_while :: "(char \<Rightarrow> bool) \<Rightarrow> string \<Rightarrow> nat \<Rightarrow> nat" where
  "scan_while P s i = (if i < length s \<and> P (s ! i) then scan_while P s (Suc i) else i)"
  by pat_completeness auto
termination
  by (relation "measure (\<lambda>(P, s, i). length s - i)") auto

text \<open>
  \<^verbatim>\<open>while (++i < l && (c = cs(i)) !== close || esc)  esc = ! esc && c === lex_back;\<close>
  The condition is \<^verbatim>\<open>(++i < l && c !== close) || esc\<close>: past the end the loop goes on
  once more when the last character was an escaping backslash.
\<close>

function string_scan :: "string \<Rightarrow> char \<Rightarrow> nat \<Rightarrow> bool \<Rightarrow> char \<Rightarrow> nat" where
  "string_scan s close i esc c =
     (if Suc i < length s
      then (if s ! Suc i \<noteq> close \<or> esc
            then string_scan s close (Suc i) (\<not> esc \<and> s ! Suc i = lex_back) (s ! Suc i)
            else Suc i)
      else (if esc then string_scan s close (Suc i) (\<not> esc \<and> c = lex_back) c else Suc i))"
  by pat_completeness auto
termination
  by (relation "measure (\<lambda>(s, close, i, esc, c). 2 * (length s - i) + (if esc then 1 else 0))") auto

text \<open>
  \<^verbatim>\<open>while (++i < l && cs(i) !== lex_slash || cs(i - 1) !== lex_star);\<close>
  The condition is \<^verbatim>\<open>(++i < l && cs(i) !== lex_slash) || cs(i - 1) !== lex_star\<close>, so the
  bound on \<^verbatim>\<open>i\<close> guards the first disjunct only. The loop need not end and is a partial
  function; \<open>block_scan s i\<close> starts with \<^verbatim>\<open>i\<close> before the increment.
\<close>

partial_function (option) block_scan :: "string \<Rightarrow> nat \<Rightarrow> nat option" where
  "block_scan s i =
     (if (Suc i < length s \<and> code_at s (Suc i) \<noteq> Some lex_slash) \<or> code_at s i \<noteq> Some lex_star
      then block_scan s (Suc i) else Some (Suc i))"

declare block_scan.simps [code]

text \<open>
  \<^verbatim>\<open>while (++i < l && (lex_decimal[c = cs(i)] || (dot ^ (dot |= c === lex_dot)) ||
                       (exp ^ (exp |= lex_exp[c] && ++i))));\<close>
  \<^verbatim>\<open>dot\<close> becomes true at the first dot, which the loop accepts. \<^verbatim>\<open>exp\<close> is a
  number: at an exponent marker \<^verbatim>\<open>i\<close> is incremented again and its new value is or-ed
  bitwise into \<^verbatim>\<open>exp\<close>; the loop goes on when that changed \<^verbatim>\<open>exp\<close>.
\<close>

function float_scan :: "string \<Rightarrow> nat \<Rightarrow> bool \<Rightarrow> nat \<Rightarrow> nat" where
  "float_scan s i dot exp =
     (if Suc i < length s
      then (let c = s ! Suc i in
            if c \<in> set lex_decimal then float_scan s (Suc i) dot exp
            else if \<not> dot \<and> c = lex_dot then float_scan s (Suc i) True exp
            else (let i2 = (if c \<in> set lex_exp then Suc (Suc i) else Suc i);
                      exp2 = exp OR (if c \<in> set lex_exp then Suc (Suc i) else 0)
                  in if exp XOR exp2 \<noteq> 0 then float_scan s i2 (dot \<or> c = lex_dot) exp2 else i2))
      else Suc i)"
  by pat_completeness auto
termination
  by (relation "measure (\<lambda>(s, i, dot, exp). length s - i)") (auto simp: Let_def)

text \<open>
  \<^verbatim>\<open>while (i < l && lex_punct[cs(i)] && has(lex_op, t + s.charAt(i)))  t += s.charAt(i++);\<close>
\<close>

function op_scan :: "string \<Rightarrow> nat \<Rightarrow> string \<Rightarrow> nat \<times> string" where
  "op_scan s i t =
     (if i < length s \<and> lex_table lex_punct (code_at s i) \<and> has lex_op (t @ char_at s i)
      then op_scan s (Suc i) (t @ char_at s i) else (i, t))"
  by pat_completeness auto
termination
  by (relation "measure (\<lambda>(s, i, t). length s - i)") auto

subsection \<open>One token\<close>

text \<open>
  The branches of the main loop that read one token, in the order of the source. The
  variable \<^verbatim>\<open>t\<close> ends as \<^verbatim>\<open>false\<close> (no token: a comment), \<^verbatim>\<open>true\<close> (the token is
  the text from the mark to \<^verbatim>\<open>i\<close>) or a string. The result is the new \<^verbatim>\<open>i\<close>,
  \<^verbatim>\<open>t\<close> and the new \<^verbatim>\<open>re\<close>; \<open>None\<close> when the comment loop does not end.
\<close>

datatype token = No_token | Span | Text string

definition lex_scan :: "string \<Rightarrow> nat \<Rightarrow> bool \<Rightarrow> (nat \<times> token \<times> bool) option" where
  "lex_scan s i re =
     (let c = code_at s i in
      if lex_table lex_bracket c then Some (i + 1, Span, lex_table lex_opener c)
      else if c = Some lex_slash \<and> code_at s (i + 1) = Some lex_star
      then (case block_scan s (i + 2) of None \<Rightarrow> None | Some j \<Rightarrow> Some (j + 1, No_token, re))
      else if c = Some lex_slash \<and> code_at s (i + 1) = Some lex_slash
      then Some (scan_while (\<lambda>x. x \<notin> set lex_eol) s (i + 1), No_token, re)
      else if lex_table lex_quote c \<and> re
      then Some (scan_while (\<lambda>x. x \<in> set lex_regexp_suffix) s
                   (string_scan s (the c) i False (the c) + 1), Span, False)
      else if c = Some lex_zero \<and> lex_table lex_integer (code_at s (i + 1))
      then Some (scan_while (\<lambda>x. x \<in> set lex_integer) s (i + 1), Span, False)
      else if lex_table lex_float c \<and> (c \<noteq> Some lex_dot \<or> lex_table lex_decimal (code_at s (i + 1)))
      then Some (scan_while (\<lambda>x. x \<in> set lex_decimal) s (float_scan s i False 0), Span, False)
      else if lex_table lex_punct c
      then (case op_scan s i (if re then ''u'' else []) of
              (j, t) \<Rightarrow> Some (j, Text t, \<not> has lex_postfix_unary t))
      else (let j = scan_while (\<lambda>x. x \<in> set lex_ident) s (i + 1)
            in Some (j, Text (substring s i j), has lex_op (substring s i j))))"


subsection \<open>Grouping and indexing\<close>

text \<open>
  The variables of \<^verbatim>\<open>parse\<close> that outlive an iteration; \<^verbatim>\<open>i\<close> and \<^verbatim>\<open>re\<close> are
  called \<open>i_pos\<close> and \<open>re_mode\<close>, and \<open>store\<close> is the heap.
  \<^verbatim>\<open>new_node = function (n) {return all_nodes.push(n), n}\<close> and
  \<^verbatim>\<open>push = function (n) {return head ? head.sibling(head = n)
                                      : (head = n.append_to(parent)), new_node(n)}\<close>
\<close>

record lexer =
  i_pos :: nat
  re_mode :: bool
  store :: heap
  grouping_stack :: "string list"
  gs_top :: "string option"
  head :: "ref option"
  parent :: "ref option"
  indexes :: "ref list list"
  invocation_nodes :: "ref list"
  all_nodes :: "ref list"

definition lex_init :: lexer where
  "lex_init = \<lparr>i_pos = 0, re_mode = True, store = [], grouping_stack = [], gs_top = None,
     head = None, parent = None, indexes = map (\<lambda>g. []) parse_reduce_order,
     invocation_nodes = [], all_nodes = []\<rparr>"

definition new_node :: "string \<Rightarrow> lexer \<Rightarrow> ref \<times> lexer" where
  "new_node d st =
     (case alloc d (store st) of
        (n, h) \<Rightarrow> (n, st\<lparr>store := h, all_nodes := all_nodes st @ [n]\<rparr>))"

definition lex_push :: "ref \<Rightarrow> lexer \<Rightarrow> lexer" where
  "lex_push n st =
     st\<lparr>store := (case head st of
                    Some a \<Rightarrow> sibling a n (store st)
                  | None \<Rightarrow> append_to n (parent st) (store st)),
        head := Some n,
        all_nodes := all_nodes st @ [n]\<rparr>"

text \<open>
  \<^verbatim>\<open>t === gs_top ? (grouping_stack.pop(), gs_top = grouping_stack[grouping_stack.length - 1],
                   head = head ? head.p : parent, parent = null) :
     (has(parse_group, t) ? (grouping_stack.push(gs_top = parse_group[t]),
                             parent = push(new_node(new syntax_node(t))), head = null)
                          : push(new_node(new syntax_node(t))),
      has(parse_inverse_order, t) && indexes[parse_inverse_order[t]].push(head || parent));\<close>
  followed by
  \<^verbatim>\<open>re |= t === ')' && head.l && has(parse_r_until_block, head.l.data)\<close>.
\<close>

definition lex_group :: "string \<Rightarrow> lexer \<Rightarrow> lexer" where
  "lex_group t st =
     (if Some t = gs_top st
      then st\<lparr>grouping_stack := butlast (grouping_stack st),
              gs_top := (if butlast (grouping_stack st) = [] then None
                         else Some (last (butlast (grouping_stack st)))),
              head := (case head st of Some a \<Rightarrow> par (node_at (store st) a) | None \<Rightarrow> parent st),
              parent := None\<rparr>
      else (case new_node t st of
              (n, st1) \<Rightarrow>
                (let st2 = lex_push n st1;
                     st3 = (if has (map fst parse_group) t
                            then st2\<lparr>grouping_stack := grouping_stack st2 @ [the (map_of parse_group t)],
                                     gs_top := map_of parse_group t,
                                     parent := Some n, head := None\<rparr>
                            else st2)
                 in if has (map fst parse_inverse_order) t
                    then (let k = the (map_of parse_inverse_order t)
                          in st3\<lparr>indexes := (indexes st3)[k := indexes st3 ! k @ [n]]\<rparr>)
                    else st3)))"

definition lex_emit :: "string \<Rightarrow> lexer \<Rightarrow> error + lexer" where
  "lex_emit t st =
     (let st1 = lex_group t st in
      if t = '')''
      then (case head st1 of
              None \<Rightarrow> Inl TypeError
            | Some a \<Rightarrow>
                (case l_sib (node_at (store st1) a) of
                   None \<Rightarrow> Inr st1
                 | Some b \<Rightarrow>
                     Inr (st1\<lparr>re_mode := re_mode st1 \<or>
                            has (map fst parse_r_until_block) (data (node_at (store st1) b))\<rparr>)))
      else Inr st1)"

subsection \<open>The main loop\<close>

text \<open>
  One iteration of \<^verbatim>\<open>while ((mark = i) < l)\<close>: skip whitespace, read a token, then
  \<^verbatim>\<open>if (i === mark) throw new Error('Internal error: The lexer failed to consume input
     and is throwing this error instead of entering an infinite loop. ...');
   if (t === false) continue;
   t = t === true ? s.substring(mark, i) : t === 'u;' ? ';' : t;\<close>
\<close>

definition lex_iter :: "string \<Rightarrow> lexer \<Rightarrow> (error + lexer) option" where
  "lex_iter s st =
     (let mark = scan_while (\<lambda>x. x \<in> set lex_space) s (i_pos st) in
      case lex_scan s mark (re_mode st) of
        None \<Rightarrow> None
      | Some (i, t, re) \<Rightarrow>
          if i = mark then Some (Inl LexerStall)
          else (case t of
                  No_token \<Rightarrow> Some (Inr (st\<lparr>i_pos := i, re_mode := re\<rparr>))
                | Span \<Rightarrow> Some (lex_emit (substring s mark i) (st\<lparr>i_pos := i, re_mode := re\<rparr>))
                | Text w \<Rightarrow>
                    Some (lex_emit (if w = ''u;'' then '';'' else w) (st\<lparr>i_pos := i, re_mode := re\<rparr>))))"

partial_function (option) lex_loop :: "string \<Rightarrow> lexer \<Rightarrow> (error + lexer) option" where
  "lex_loop s st =
     (if i_pos st < length s
      then (case lex_iter s st of
              None \<Rightarrow> None
            | Some (Inl e) \<Rightarrow> Some (Inl e)
            | Some (Inr st') \<Rightarrow> lex_loop s st')
      else Some (Inr st))"

declare lex_loop.simps [code]

text \<open>The data of the nodes that the lexer created, in the order of their creation.\<close>

definition tokens :: "string \<Rightarrow> (error + string list) option" where
  "tokens s = map_option (map_sum id (\<lambda>st. map data (store st))) (lex_loop s lex_init)"


section \<open>The parser\<close>

text \<open>
  The body of the fold loop, for one node of an index. The grab-until-block case is
  \<^verbatim>\<open>for (var count = 0, limit = parse_r_until_block[data];
        count < limit && node.r && ! has(parse_block, node.r.data); ++count) node.fold_r();
   node.r && node.r.data !== ';' && node.fold_r();
   if (has(parse_accepts, data) && parse_accepts[data] === (node.r && node.r.r && node.r.r.data))
     node.fold_r().pop().fold_r();
   else if (has(parse_accepts, data) && parse_accepts[data] === (node.r && node.r.data))
     node.fold_r()\<close>
\<close>

fun grab :: "nat \<Rightarrow> ref \<Rightarrow> heap \<Rightarrow> heap" where
  "grab 0 node h = h"
| "grab (Suc c) node h =
     (case r_sib (node_at h node) of
        None \<Rightarrow> h
      | Some b \<Rightarrow> if has parse_block (data (node_at h b)) then h else grab c node (fold_r node h))"

definition r_data :: "heap \<Rightarrow> ref \<Rightarrow> string option" where
  "r_data h node = map_option (\<lambda>b. data (node_at h b)) (r_sib (node_at h node))"

definition r_r_data :: "heap \<Rightarrow> ref \<Rightarrow> string option" where
  "r_r_data h node =
     (case r_sib (node_at h node) of None \<Rightarrow> None | Some b \<Rightarrow> r_data h b)"

definition fold_unless_semicolon :: "ref \<Rightarrow> heap \<Rightarrow> heap" where
  "fold_unless_semicolon node h =
     (case r_data h node of
        None \<Rightarrow> h
      | Some d \<Rightarrow> if d \<noteq> '';'' then fold_r node h else h)"

text \<open>\<^verbatim>\<open>var temp = node[1]; node[1] = node[0]; node[0] = temp\<close>\<close>

definition swap01 :: "ref \<Rightarrow> heap \<Rightarrow> heap" where
  "swap01 node h =
     (let temp = slot (node_at h node) 1;
          h1 = upd node (\<lambda>n. n\<lparr>slots := slot_set (slots n) 1 (slot n 0)\<rparr>) h
      in upd node (\<lambda>n. n\<lparr>slots := slot_set (slots n) 0 temp\<rparr>) h1)"

text \<open>
  \<^verbatim>\<open>x.wrap(w).p.fold_r()\<close>, the node \<^verbatim>\<open>x.wrap(w).p\<close> being the result. The condition
  under which an ambiguous group is an invocation or a dereference is
  \<^verbatim>\<open>has(parse_ambiguous_group, data) && node.l &&
   (node.l.data === '.' || ! (has(lex_op, node.l.data) || has(parse_not_a_value, node.l.data)))\<close>
  and what happens then is
  \<^verbatim>\<open>invocation_nodes.push(node.l.wrap(new_node(new syntax_node(data + parse_group[data])))
                               .p.fold_r())\<close>.
\<close>

definition wrap_and_fold :: "ref \<Rightarrow> ref \<Rightarrow> heap \<Rightarrow> error + ref \<times> heap" where
  "wrap_and_fold this w h =
     (let h1 = wrap this w h in
      case par (node_at h1 this) of
        None \<Rightarrow> Inl TypeError
      | Some q \<Rightarrow> Inr (q, fold_r q h1))"

definition is_invocation :: "heap \<Rightarrow> ref \<Rightarrow> bool" where
  "is_invocation h node =
     (has parse_ambiguous_group (data (node_at h node)) \<and>
      (case l_sib (node_at h node) of
         None \<Rightarrow> False
       | Some a \<Rightarrow> data (node_at h a) = ''.'' \<or>
                   \<not> (has lex_op (data (node_at h a)) \<or> has parse_not_a_value (data (node_at h a)))))"

definition fold_node :: "ref \<Rightarrow> lexer \<Rightarrow> error + lexer" where
  "fold_node node st =
     (let h = store st; d = data (node_at h node) in
      if has parse_lr d then Inr (st\<lparr>store := fold_lr node h\<rparr>)
      else if is_invocation h node
      then (case new_node (d @ the (map_of parse_group d)) st of
              (w, st1) \<Rightarrow>
                (case wrap_and_fold (the (l_sib (node_at h node))) w (store st1) of
                   Inl e \<Rightarrow> Inl e
                 | Inr (q, h2) \<Rightarrow>
                     Inr (st1\<lparr>store := h2, invocation_nodes := invocation_nodes st1 @ [q]\<rparr>)))
      else if has parse_l d then Inr (st\<lparr>store := fold_l node h\<rparr>)
      else if has parse_r d then Inr (st\<lparr>store := fold_r node h\<rparr>)
      else if has parse_ternary d then Inr (st\<lparr>store := swap01 node (fold_lr node h)\<rparr>)
      else if has (map fst parse_r_until_block) d \<and> r_data h node \<noteq> None \<and> r_data h node \<noteq> Some '':''
      then (let h1 = grab (the (map_of parse_r_until_block d)) node h;
                h2 = fold_unless_semicolon node h1
            in if has (map fst parse_accepts) d \<and> map_of parse_accepts d = r_r_data h2 node
               then Inr (st\<lparr>store := fold_r node (pop node (fold_r node h2))\<rparr>)
               else if has (map fst parse_accepts) d \<and> map_of parse_accepts d = r_data h2 node
               then Inr (st\<lparr>store := fold_r node h2\<rparr>)
               else Inr (st\<lparr>store := h2\<rparr>))
      else if has parse_r_optional d then Inr (st\<lparr>store := fold_unless_semicolon node h\<rparr>)
      else Inr st)"

text \<open>
  The indexes are run from the highest precedence to the lowest, each forwards or
  backwards as \<^verbatim>\<open>parse_index_forward\<close> says.
\<close>

fun fold_nodes :: "ref list \<Rightarrow> lexer \<Rightarrow> error + lexer" where
  "fold_nodes [] st = Inr st"
| "fold_nodes (node # nodes) st =
     (case fold_node node st of Inl e \<Rightarrow> Inl e | Inr st' \<Rightarrow> fold_nodes nodes st')"

fun fold_groups :: "nat list \<Rightarrow> lexer \<Rightarrow> error + lexer" where
  "fold_groups [] st = Inr st"
| "fold_groups (i # js) st =
     (case fold_nodes (if parse_index_forward i then indexes st ! i else rev (indexes st ! i)) st of
        Inl e \<Rightarrow> Inl e
      | Inr st' \<Rightarrow> fold_groups js st')"

text \<open>
  \<^verbatim>\<open>for (var i = all_nodes.length - 1, _; _ = all_nodes[i], i >= 0; --i)
     _.r && _.wrap(new syntax_node('i;')).p.fold_r();\<close>
  \<^verbatim>\<open>for (var i = 0, l = invocation_nodes.length, _, child; _ = invocation_nodes[i], i < l; ++i)
     (child = _[1] = _[1][0]) && (child.p = _);\<close>
  \<^verbatim>\<open>while (head.p) head = head.p; return head\<close>
\<close>

fun infer_semicolons :: "ref list \<Rightarrow> heap \<Rightarrow> error + heap" where
  "infer_semicolons [] h = Inr h"
| "infer_semicolons (n # ns) h =
     (if r_sib (node_at h n) \<noteq> None
      then (case alloc ''i;'' h of
              (w, h1) \<Rightarrow>
                (case wrap_and_fold n w h1 of
                   Inl e \<Rightarrow> Inl e
                 | Inr (q, h2) \<Rightarrow> infer_semicolons ns h2))
      else infer_semicolons ns h)"

fun flatten_invocations :: "ref list \<Rightarrow> heap \<Rightarrow> error + heap" where
  "flatten_invocations [] h = Inr h"
| "flatten_invocations (q # qs) h =
     (case slot (node_at h q) 1 of
        None \<Rightarrow> Inl TypeError
      | Some g \<Rightarrow>
          (let child = slot (node_at h g) 0;
               h1 = upd q (\<lambda>n. n\<lparr>slots := slot_set (slots n) 1 child\<rparr>) h
           in flatten_invocations qs
                (case child of None \<Rightarrow> h1 | Some c \<Rightarrow> upd c (\<lambda>n. n\<lparr>par := Some q\<rparr>) h1)))"

partial_function (option) ascend :: "heap \<Rightarrow> ref \<Rightarrow> ref option" where
  "ascend h a = (case par (node_at h a) of None \<Rightarrow> Some a | Some q \<Rightarrow> ascend h q)"

declare ascend.simps [code]

text \<open>
  \<^verbatim>\<open>parse\<close>: \<open>None\<close> when it does not return, else the raised error or the root
  together with the heap.
\<close>

definition parse :: "string \<Rightarrow> (error + ref \<times> heap) option" where
  "parse s =
     (case lex_loop s lex_init of
        None \<Rightarrow> None
      | Some (Inl e) \<Rightarrow> Some (Inl e)
      | Some (Inr st) \<Rightarrow>
          (case fold_groups [0 ..< length (indexes st)] st of
             Inl e \<Rightarrow> Some (Inl e)
           | Inr st1 \<Rightarrow>
               (case infer_semicolons (rev (all_nodes st1)) (store st1) of
                  Inl e \<Rightarrow> Some (Inl e)
                | Inr h2 \<Rightarrow>
                    (case flatten_invocations (invocation_nodes st1) h2 of
                       Inl e \<Rightarrow> Some (Inl e)
                     | Inr h3 \<Rightarrow>
                         (case head st1 of
                            None \<Rightarrow> Some (Inl TypeError)
                          | Some a \<Rightarrow> map_option (\<lambda>r. Inr (r, h3)) (ascend h3 a))))))"

section \<open>Inspection and serialization\<close>

text \<open>
  \<^verbatim>\<open>inspect: function () {return (this.l ? '(left) <- ' : '') + '(' + this.data +
       (this.length ? ' ' + map(syntax_node_inspect, this).join(' ') : '') + ')' +
       (this.r ? ' -> ' + this.r.inspect() : '')}\<close>
  with \<^verbatim>\<open>syntax_node_inspect = fn('$0 ? $0.inspect() : "(<>)"')\<close>. Both this and
  \<^verbatim>\<open>serialize\<close> follow the heap and carry fuel.
\<close>

fun join :: "string \<Rightarrow> string list \<Rightarrow> string" where
  "join sep [] = []"
| "join sep [x] = x"
| "join sep (x # y # zs) = x @ sep @ join sep (y # zs)"

fun inspect :: "nat \<Rightarrow> heap \<Rightarrow> ref \<Rightarrow> string option" where
  "inspect 0 h this = None"
| "inspect (Suc k) h this =
     (let n = node_at h this;
          kids = map (\<lambda>i. case slot n i of None \<Rightarrow> Some ''(<>)'' | Some c \<Rightarrow> inspect k h c) [0 ..< len n];
          right = (case r_sib n of None \<Rightarrow> Some [] | Some b \<Rightarrow> map_option (\<lambda>x. '' -> '' @ x) (inspect k h b))
      in if list_all (\<lambda>x. x \<noteq> None) kids \<and> right \<noteq> None
         then Some ((if l_sib n \<noteq> None then ''(left) <- '' else []) @ ''('' @ data n @
                    (if len n \<noteq> 0 then '' '' @ join '' '' (map the kids) else []) @ '')'' @ the right)
         else None)"

definition show_parse :: "string \<Rightarrow> (error + string) option" where
  "show_parse s =
     (case parse s of
        None \<Rightarrow> None
      | Some (Inl e) \<Rightarrow> Some (Inl e)
      | Some (Inr (r, h)) \<Rightarrow> map_option Inr (inspect (length h) h r))"


text \<open>
  \<^verbatim>\<open>serialize\<close>, with \<^verbatim>\<open>space = /\w/.test(op.charAt(op.length - 1)) ? ' ' : ''\<close>,
  \<^verbatim>\<open>op.replace(/^u/, '')\<close> and
  \<^verbatim>\<open>syntax_node_tostring = fn('$0 ? $0.serialize ? $0.serialize() : $0.toString() : ""')\<close>.
  The cases are those of the source, in its order.
\<close>

definition word_char :: "char \<Rightarrow> bool" where
  "word_char c \<longleftrightarrow> c \<in> set ''abcdefghijklmnopqrstuvwxyzABCDEFGHIJKLMNOPQRSTUVWXYZ0123456789_''"

definition strip_u :: "string \<Rightarrow> string" where
  "strip_u op = (case op of c # rest \<Rightarrow> if c = CHR ''u'' then rest else op | [] \<Rightarrow> op)"

fun serialize :: "nat \<Rightarrow> heap \<Rightarrow> ref \<Rightarrow> string option" where
  "serialize 0 h this = None"
| "serialize (Suc k) h this =
     (let n = node_at h this;
          op = data n;
          tostring = (\<lambda>x. case x of None \<Rightarrow> Some [] | Some c \<Rightarrow> serialize k h c);
          right = (case r_sib n of
                     None \<Rightarrow> Some []
                   | Some b \<Rightarrow> map_option (\<lambda>x. ''/* -> '' @ x @ '' */'') (serialize k h b));
          space = (if op \<noteq> [] \<and> word_char (last op) then '' '' else []);
          kids = map (\<lambda>i. tostring (slot n i)) [0 ..< len n];
          s0 = tostring (slot n 0); s1 = tostring (slot n 1); s2 = tostring (slot n 2)
      in if list_all (\<lambda>x. x \<noteq> None) (right # s0 # s1 # s2 # kids)
         then Some
           ((if has parse_invisible op then join space (map the kids)
             else if has parse_invocation op
             then join space [the s0, char_at op 0, the s1, char_at op 1]
             else if has parse_ternary op
             then join space [the s0, op, the s1, the (map_of parse_group op), the s2]
             else if has (map fst parse_group) op
             then op @ join space (map the kids) @ the (map_of parse_group op)
             else if has parse_lr op
             then (if len n \<noteq> 0 then join (space @ op @ space) (map the kids) else op)
             else if has parse_r op \<or> has parse_r_optional op
             then strip_u op @ space @ the s0
             else if has (map fst parse_r_until_block) op
             then (if has (map fst parse_accepts) op \<and> slot n 1 \<noteq> None \<and>
                      data (node_at h (the (slot n 1))) \<noteq> ''{'' \<and> slot n 2 \<noteq> None \<and>
                      map_of parse_accepts op = Some (data (node_at h (the (slot n 2))))
                   then op @ space @ join [] [the s0, the s1, '';'', the s2]
                   else op @ space @ join [] (map the kids))
             else if has parse_l op then the s0 @ space @ op
             else op) @ the right)
         else None)"

definition inspect_and_serialize :: "string \<Rightarrow> (error + string \<times> string) option" where
  "inspect_and_serialize s =
     (case parse s of
        None \<Rightarrow> None
      | Some (Inl e) \<Rightarrow> Some (Inl e)
      | Some (Inr (r, h)) \<Rightarrow>
          (case (inspect (length h) h r, serialize (length h) h r) of
             (Some a, Some b) \<Rightarrow> Some (Inr (a, b))
           | _ \<Rightarrow> None))"

section \<open>Termination of the lexer\<close>

text \<open>
  Past the end of the text the comment loop finds no star before \<^verbatim>\<open>i\<close> and never
  stops.
\<close>

lemma block_scan_in_range: "block_scan s i = Some y \<Longrightarrow> i < length s"
proof (rule block_scan.raw_induct[where P = "\<lambda>s i y. i < length s"])
  fix f s i y
  assume IH: "\<And>s i y. f s i = Some y \<Longrightarrow> i < length s"
    and body: "(if (Suc i < length s \<and> code_at s (Suc i) \<noteq> Some lex_slash) \<or> code_at s i \<noteq> Some lex_star
               then f s (Suc i) else Some (Suc i)) = Some y"
  show "i < length s"
  proof (cases "(Suc i < length s \<and> code_at s (Suc i) \<noteq> Some lex_slash) \<or> code_at s i \<noteq> Some lex_star")
    case True
    with body have "f s (Suc i) = Some y" by simp
    from IH[OF this] show ?thesis by simp
  next
    case False
    then have "code_at s i = Some lex_star" by simp
    then show ?thesis by (simp add: code_at_def split: if_splits)
  qed
qed

lemma block_scan_diverges: "length s \<le> i \<Longrightarrow> block_scan s i = None"
  using block_scan_in_range[of s i] by (cases "block_scan s i") auto

text \<open>
  Claim C8 fails on the text \<^verbatim>\<open>/*\<close>: the token reader does not return, so neither
  the main loop of the lexer nor \<^verbatim>\<open>parse\<close> does, and no error is raised.
\<close>

theorem parse_unterminated_comment:
  "lex_loop ''/*'' lex_init = None \<and> parse ''/*'' = None"
proof -
  have b: "block_scan ''/*'' 2 = None" by (rule block_scan_diverges) simp
  have sc: "lex_scan ''/*'' 0 True = None"
    by (simp add: lex_scan_def code_at_def lex_table_def lex_bracket_def lex_slash_def lex_star_def
        block_scan_diverges)
  have w: "scan_while (\<lambda>x. x \<in> set lex_space) ''/*'' 0 = 0"
    by (subst scan_while.simps) (simp add: lex_space_def)
  have ip: "i_pos lex_init = 0" "re_mode lex_init = True"
    by (simp_all add: lex_init_def)
  have it: "lex_iter ''/*'' lex_init = None"
    unfolding lex_iter_def ip w by (simp add: sc)
  have lp: "lex_loop ''/*'' lex_init = None"
    by (subst lex_loop.simps) (simp add: it ip)
  show ?thesis using sc lp by (simp add: parse_def)
qed

section \<open>Round trips\<close>

definition serialize_parse :: "string \<Rightarrow> (error + string) option" where
  "serialize_parse s =
     (case parse s of
        None \<Rightarrow> None
      | Some (Inl e) \<Rightarrow> Some (Inl e)
      | Some (Inr (r, h)) \<Rightarrow> map_option Inr (serialize (length h) h r))"

text \<open>
  Claim C5 fails on the text \<^verbatim>\<open>- -a\<close>: it parses to a negation of a negation, which
  is serialized as \<^verbatim>\<open>--a\<close>, and that parses to a decrement.
\<close>

theorem roundtrip_unary_minus:
  "show_parse ''- -a'' = Some (Inr ''(u- (u- (a)))'') \<and>
   serialize_parse ''- -a'' = Some (Inr ''--a'') \<and>
   show_parse ''--a'' = Some (Inr ''(u-- (a))'')"
  by code_simp


end
